theory Spec2Isabelle
  imports Main
begin

section \<open>Paths, files and exceptions\<close>

text \<open>
  Python strings are modelled as lists of characters, one list element per character of
  the \<open>str\<close>; file contents read in binary mode are lists of bytes. Paths follow
  \<open>posixpath\<close>.
\<close>

type_synonym path = string
type_synonym bytes = "char list"

text \<open>
  The exceptions the sources raise themselves are \<open>FileNotFoundError\<close> and
  \<open>ValueError\<close>; \<open>Exception\<close> stands for whatever an external call raises
  (the PDF loader, the splitter, the embedding provider, the language model, the
  operating system). The argument is the message, \<open>str(e)\<close>.
\<close>

datatype error = FileNotFoundError string | ValueError string | Exception string

fun str_of_error :: "error \<Rightarrow> string" where
  "str_of_error (FileNotFoundError m) = m"
| "str_of_error (ValueError m) = m"
| "str_of_error (Exception m) = m"

definition startswith :: "string \<Rightarrow> string \<Rightarrow> bool" where
  "startswith s p = (take (length p) s = p)"

definition endswith :: "string \<Rightarrow> string \<Rightarrow> bool" where
  "endswith s p = (length p \<le> length s \<and> drop (length s - length p) s = p)"

text \<open>\<open>str.lower\<close>, on the ASCII letters.\<close>

definition lower_char :: "char \<Rightarrow> char" where
  "lower_char c =
     (if 65 \<le> (of_char c :: nat) \<and> (of_char c :: nat) \<le> 90
      then char_of ((of_char c :: nat) + 32) else c)"

definition lower :: "string \<Rightarrow> string" where
  "lower s = map lower_char s"

text \<open>\<open>os.path.join\<close>, \<open>os.path.basename\<close> and \<open>os.path.dirname\<close>.\<close>

definition join :: "path \<Rightarrow> path \<Rightarrow> path" where
  "join a b =
     (if startswith b ''/'' then b
      else if a = [] \<or> endswith a ''/'' then a @ b
      else a @ ''/'' @ b)"

definition basename :: "path \<Rightarrow> path" where
  "basename p = rev (takeWhile (\<lambda>c. c \<noteq> CHR ''/'') (rev p))"

definition dirname :: "path \<Rightarrow> path" where
  "dirname p =
     (let head = take (length p - length (basename p)) p
      in if head \<noteq> [] \<and> head \<noteq> replicate (length head) (CHR ''/'')
         then rev (dropWhile (\<lambda>c. c = CHR ''/'') (rev head))
         else head)"

section \<open>Documents, the world and the external capabilities\<close>

text \<open>
  A LangChain \<open>Document\<close>: a page of a PDF as the loader returns it, or a chunk as the
  splitter returns it. The metadata of the PDF loader names the source file and the
  page.
\<close>

record doc_meta =
  source :: string
  page :: nat

record document =
  page_content :: string
  metadata :: doc_meta

text \<open>
  What happens outside the process is recorded in a log, in order: a PDF handed to the
  loader, documents added to a vector store, a vector store flushed to disk, a stored
  collection opened, a prompt sent to the language model.
\<close>

datatype event =
    EvLoad path
  | EvInsert path nat
  | EvPersist path
  | EvOpen path
  | EvLLM string

datatype node = Directory "string list" | RegularFile

text \<open>
  The world the program runs in: the file system (\<open>fs\<close> gives, for each existing path,
  whether it is a directory and then its listing in \<open>os.listdir\<close> order), what
  \<open>os.stat\<close> returns for a path (\<open>st_size\<close> and \<open>st_mtime\<close>) or the message of the
  exception it raises, what \<open>open(path, 'rb')\<close> followed by reading to the end gives
  or raises, the collections that Chroma has persisted, by directory, and the log.
\<close>

record world =
  fs :: "path \<rightharpoonup> node"
  os_stat :: "path \<Rightarrow> string + (nat \<times> int)"
  open_rb :: "path \<Rightarrow> string + bytes"
  chroma :: "path \<rightharpoonup> document list"
  events :: "event list"

text \<open>
  The capabilities the code calls and does not define. Each is a function of its
  arguments; one that may raise returns the message on the left.
  \<^item> \<open>pdf_load\<close>: \<open>PyPDFLoader(path).load()\<close>, the pages of a PDF;
  \<^item> \<open>split_documents\<close>: \<open>RecursiveCharacterTextSplitter(chunk_size=1000,
    chunk_overlap=200, length_function=len).split_documents\<close>;
  \<^item> \<open>embed_documents\<close>: the embedding provider on the texts of a batch, of which only
    the failure matters here;
  \<^item> \<open>similarity_search\<close>: the \<open>k\<close> documents of a collection nearest to a query, in
    ranking order (it embeds the query, so it may raise);
  \<^item> \<open>llm\<close>: the language model on a prompt;
  \<^item> \<open>sha256_hexdigest\<close>: \<open>hashlib.sha256\<close> of a byte string, as hex digits;
  \<^item> \<open>strftime\<close>: \<open>datetime.fromtimestamp(t).strftime('%Y-%m-%d %H:%M:%S')\<close>;
  \<^item> \<open>normpath\<close>: \<open>os.path.normpath\<close>;
  \<^item> \<open>module_dir\<close>: \<open>os.path.dirname(os.path.abspath(__file__))\<close>;
  \<^item> \<open>google_api_key\<close>: the environment variable \<open>GOOGLE_API_KEY\<close>.
\<close>

record env =
  pdf_load :: "path \<Rightarrow> string + document list"
  split_documents :: "document list \<Rightarrow> string + document list"
  embed_documents :: "string list \<Rightarrow> string option"
  similarity_search :: "document list \<Rightarrow> string \<Rightarrow> nat \<Rightarrow> string + document list"
  llm :: "string \<Rightarrow> string + string"
  sha256_hexdigest :: "bytes \<Rightarrow> string"
  strftime :: "int \<Rightarrow> string"
  normpath :: "path \<Rightarrow> path"
  module_dir :: path
  google_api_key :: "string option"

definition exists :: "world \<Rightarrow> path \<Rightarrow> bool" where
  "exists w p = (fs w p \<noteq> None)"

definition listdir :: "world \<Rightarrow> path \<Rightarrow> error + string list" where
  "listdir w p =
     (case fs w p of
        Some (Directory names) \<Rightarrow> Inr names
      | Some RegularFile \<Rightarrow> Inl (Exception (''Not a directory: '' @ p))
      | None \<Rightarrow> Inl (FileNotFoundError (''No such file or directory: '' @ p)))"

text \<open>\<open>os.makedirs(p, exist_ok=True)\<close>: nothing to do for a directory that is there.\<close>

definition makedirs :: "world \<Rightarrow> path \<Rightarrow> error + world" where
  "makedirs w p =
     (case fs w p of
        None \<Rightarrow> Inr (w\<lparr>fs := (fs w)(p \<mapsto> Directory [])\<rparr>)
      | Some (Directory names) \<Rightarrow> Inr w
      | Some RegularFile \<Rightarrow> Inl (Exception (''File exists: '' @ p)))"

section \<open>utils.py\<close>

text \<open>
  \<open>generate_file_hash(file_path, read_bytes=1024*1024)\<close>: one \<open>file.read(read_bytes)\<close>
  on the file opened in binary mode, which returns the first \<open>read_bytes\<close> bytes, or
  all of them when the file is shorter; the digest is of that chunk only.
\<close>

definition generate_file_hash_n :: "env \<Rightarrow> world \<Rightarrow> path \<Rightarrow> nat \<Rightarrow> string + string" where
  "generate_file_hash_n E w file_path read_bytes =
     (case open_rb w file_path of
        Inl e \<Rightarrow> Inl e
      | Inr content \<Rightarrow> Inr (sha256_hexdigest E (take read_bytes content)))"

definition generate_file_hash :: "env \<Rightarrow> world \<Rightarrow> path \<Rightarrow> string + string" where
  "generate_file_hash E w file_path = generate_file_hash_n E w file_path (1024 * 1024)"

text \<open>
  \<open>round(stats.st_size / 1024, 2)\<close>, in hundredths of a kilobyte. The quotient is exact
  in binary floating point, and Python rounds an exact tie to the even neighbour.
\<close>

definition size_kb_hundredths :: "nat \<Rightarrow> nat" where
  "size_kb_hundredths st_size =
     (let q = (st_size * 100) div 1024; r = (st_size * 100) mod 1024
      in if r < 512 then q
         else if 512 < r then q + 1
         else if even q then q else q + 1)"

text \<open>
  One entry of the listing: the four fields when \<open>os.stat\<close> and the hash succeed, the
  file name and the message of the exception otherwise.
\<close>

datatype doc_info =
    Info (filename: string) (size_kb: nat) (modified_date: string) (hash: string)
  | InfoError (filename: string) (error_msg: string)

definition is_pdf_name :: "string \<Rightarrow> bool" where
  "is_pdf_name f = endswith (lower f) ''.pdf''"

definition document_info :: "env \<Rightarrow> world \<Rightarrow> path \<Rightarrow> string \<Rightarrow> doc_info" where
  "document_info E w pdf_directory pdf_file =
     (let pdf_path = join pdf_directory pdf_file
      in case os_stat w pdf_path of
           Inl e \<Rightarrow> InfoError pdf_file e
         | Inr (st_size, st_mtime) \<Rightarrow>
             (case generate_file_hash E w pdf_path of
                Inl e \<Rightarrow> InfoError pdf_file e
              | Inr file_hash \<Rightarrow>
                  Info pdf_file (size_kb_hundredths st_size) (strftime E st_mtime) file_hash))"

definition list_documents :: "env \<Rightarrow> world \<Rightarrow> path \<Rightarrow> error + doc_info list" where
  "list_documents E w pdf_directory =
     (if \<not> exists w pdf_directory then Inr []
      else case listdir w pdf_directory of
             Inl e \<Rightarrow> Inl e
           | Inr names \<Rightarrow>
               Inr (map (document_info E w pdf_directory) (filter is_pdf_name names)))"

section \<open>document_processor.py\<close>

text \<open>
  \<open>glob.glob(os.path.join(pdf_directory, "*.pdf"))\<close>: the entries of the directory
  whose name matches \<open>*.pdf\<close>, joined to the directory, in the order of the listing.
  The match is the one of \<open>fnmatch\<close> on POSIX: case-sensitive, and a name that starts
  with a dot is skipped. A path that is not a directory gives no match.
\<close>

definition glob_match_pdf :: "string \<Rightarrow> bool" where
  "glob_match_pdf f = (endswith f ''.pdf'' \<and> \<not> startswith f ''.'')"

definition glob_pdf :: "world \<Rightarrow> path \<Rightarrow> path list" where
  "glob_pdf w pdf_directory =
     (case fs w pdf_directory of
        Some (Directory names) \<Rightarrow> map (join pdf_directory) (filter glob_match_pdf names)
      | Some RegularFile \<Rightarrow> []
      | None \<Rightarrow> [])"

text \<open>One entry of the report's \<open>files\<close> list.\<close>

datatype file_status =
    FileSuccess string nat nat
  | FileFailed string string

record report =
  processed :: nat
  failed :: nat
  files :: "file_status list"

definition raw_path :: path where
  "raw_path = ''F:'' @ [CHR 0x5C] @ ''softograph'' @ [CHR 0x5C] @ ''rag_langchain_project''
     @ [CHR 0x5C] @ ''data'' @ [CHR 0x5C] @ ''pdfs''"

text \<open>
  The directory \<open>process_documents\<close> ends up reading: the normalised argument when it
  exists, else \<open>data/pdfs\<close> beside the package, else the hard-wired path, else
  \<open>FileNotFoundError\<close>.
\<close>

definition resolve_pdf_directory :: "env \<Rightarrow> world \<Rightarrow> path \<Rightarrow> error + path" where
  "resolve_pdf_directory E w pdf_directory0 =
     (let pdf_directory = normpath E pdf_directory0
      in if exists w pdf_directory then Inr pdf_directory
         else let relative_pdf_dir = join (join (dirname (module_dir E)) ''data'') ''pdfs''
              in if exists w relative_pdf_dir then Inr relative_pdf_dir
                 else if exists w raw_path then Inr raw_path
                 else Inl (FileNotFoundError (''PDF directory not found: '' @ pdf_directory)))"

text \<open>
  The body of the \<open>try\<close> for one PDF, with its \<open>except Exception\<close>: load the pages,
  split them, and report the counts, or report the failure. The chunks themselves are
  dropped.
\<close>

definition process_pdf :: "env \<Rightarrow> path \<Rightarrow> file_status" where
  "process_pdf E pdf_path =
     (let pdf_file = basename pdf_path
      in case pdf_load E pdf_path of
           Inl e \<Rightarrow> FileFailed pdf_file e
         | Inr documents \<Rightarrow>
             (case split_documents E documents of
                Inl e \<Rightarrow> FileFailed pdf_file e
              | Inr chunks \<Rightarrow> FileSuccess pdf_file (length chunks) (length documents)))"

text \<open>The \<open>for pdf_path in pdf_files\<close> loop, on the counters, the list and the world.\<close>

fun process_loop :: "env \<Rightarrow> path list \<Rightarrow> report \<times> world \<Rightarrow> report \<times> world" where
  "process_loop E [] (r, w) = (r, w)"
| "process_loop E (pdf_path # rest) (r, w) =
     (let w1 = w\<lparr>events := events w @ [EvLoad pdf_path]\<rparr>
      in case process_pdf E pdf_path of
           FileSuccess f c p \<Rightarrow>
             process_loop E rest
               (r\<lparr>processed := processed r + 1, files := files r @ [FileSuccess f c p]\<rparr>, w1)
         | FileFailed f e \<Rightarrow>
             process_loop E rest
               (r\<lparr>failed := failed r + 1, files := files r @ [FileFailed f e]\<rparr>, w1))"

definition process_documents :: "env \<Rightarrow> world \<Rightarrow> path \<Rightarrow> (error + report) \<times> world" where
  "process_documents E w pdf_directory0 =
     (case resolve_pdf_directory E w pdf_directory0 of
        Inl e \<Rightarrow> (Inl e, w)
      | Inr pdf_directory \<Rightarrow>
          (let pdf_files = glob_pdf w pdf_directory
           in if pdf_files = [] then (Inr \<lparr>processed = 0, failed = 0, files = []\<rparr>, w)
              else case process_loop E pdf_files (\<lparr>processed = 0, failed = 0, files = []\<rparr>, w) of
                     (r, w') \<Rightarrow> (Inr r, w')))"

section \<open>rag_system.py\<close>

text \<open>
  The fields of a \<open>RAGSystem\<close> that its methods read and write. \<open>vector_store\<close> is the
  in-memory handle: \<open>None\<close> until a store is loaded or created, then the collection.
\<close>

record rag_system =
  pdf_dir :: path
  vector_store_path :: path
  vector_store :: "document list option"


text \<open>
  Chroma, as the code uses it. Opening a store on a directory gives the collection
  persisted there, empty when there is none. \<open>Chroma.from_documents\<close> embeds the
  documents and adds them to the collection of that directory; \<open>persist\<close> writes the
  collection to the directory, which then holds Chroma's files.
\<close>

definition chroma_open :: "world \<Rightarrow> path \<Rightarrow> document list" where
  "chroma_open w p = (case chroma w p of None \<Rightarrow> [] | Some coll \<Rightarrow> coll)"

definition from_documents ::
  "env \<Rightarrow> world \<Rightarrow> path \<Rightarrow> document list \<Rightarrow> error + document list \<times> world" where
  "from_documents E w p documents =
     (case embed_documents E (map page_content documents) of
        Some e \<Rightarrow> Inl (Exception e)
      | None \<Rightarrow>
          Inr (chroma_open w p @ documents,
               w\<lparr>events := events w @ [EvInsert p (length documents)]\<rparr>))"

definition chroma_files :: "string list" where
  "chroma_files = [''chroma-collections.parquet'', ''chroma-embeddings.parquet'', ''index'']"

definition persist :: "world \<Rightarrow> path \<Rightarrow> document list \<Rightarrow> world" where
  "persist w p coll =
     w\<lparr>chroma := (chroma w)(p \<mapsto> coll),
       fs := (fs w)(p \<mapsto> Directory
               (case fs w p of
                  Some (Directory names) \<Rightarrow> names @ filter (\<lambda>f. f \<notin> set names) chroma_files
                | Some RegularFile \<Rightarrow> chroma_files
                | None \<Rightarrow> chroma_files)),
       events := events w @ [EvPersist p]\<rparr>"

text \<open>
  The \<open>for pdf_file in pdf_files\<close> loop of \<open>initialize_vector_store\<close>. It has no
  \<open>try\<close> of its own: an exception of the loader or the splitter leaves the loop and
  the method.
\<close>

fun load_chunks ::
  "env \<Rightarrow> path \<Rightarrow> string list \<Rightarrow> document list \<times> world \<Rightarrow> (error + document list) \<times> world" where
  "load_chunks E d [] (documents, w) = (Inr documents, w)"
| "load_chunks E d (pdf_file # rest) (documents, w) =
     (let pdf_path = join d pdf_file;
          w1 = w\<lparr>events := events w @ [EvLoad pdf_path]\<rparr>
      in case pdf_load E pdf_path of
           Inl e \<Rightarrow> (Inl (Exception e), w1)
         | Inr pdf_documents \<Rightarrow>
             (case split_documents E pdf_documents of
                Inl e \<Rightarrow> (Inl (Exception e), w1)
              | Inr chunks \<Rightarrow> load_chunks E d rest (documents @ chunks, w1)))"

text \<open>
  The branch of \<open>initialize_vector_store\<close> that creates the store, taken when the
  store directory is missing or empty.
\<close>

definition create_vector_store ::
  "env \<Rightarrow> world \<times> rag_system \<Rightarrow> (error + bool) \<times> world \<times> rag_system" where
  "create_vector_store E ws =
     (case ws of (w, s) \<Rightarrow>
        (case makedirs w (vector_store_path s) of
           Inl e \<Rightarrow> (Inl e, w, s)
         | Inr w1 \<Rightarrow>
             if \<not> exists w1 (pdf_dir s)
             then (Inl (FileNotFoundError (''PDF directory not found: '' @ pdf_dir s)), w1, s)
             else (case listdir w1 (pdf_dir s) of
                     Inl e \<Rightarrow> (Inl e, w1, s)
                   | Inr names \<Rightarrow>
                       (let pdf_files = filter is_pdf_name names
                        in if pdf_files = []
                           then (Inl (ValueError (''No PDF files found in '' @ pdf_dir s)), w1, s)
                           else (case load_chunks E (pdf_dir s) pdf_files ([], w1) of
                                   (Inl e, w2) \<Rightarrow> (Inl e, w2, s)
                                 | (Inr documents, w2) \<Rightarrow>
                                     (case from_documents E w2 (vector_store_path s) documents of
                                        Inl e \<Rightarrow> (Inl e, w2, s)
                                      | Inr (coll, w3) \<Rightarrow>
                                          (Inr True, persist w3 (vector_store_path s) coll,
                                           s\<lparr>vector_store := Some coll\<rparr>)))))))"

definition initialize_vector_store ::
  "env \<Rightarrow> world \<times> rag_system \<Rightarrow> (error + bool) \<times> world \<times> rag_system" where
  "initialize_vector_store E ws =
     (case ws of (w, s) \<Rightarrow>
        (case (if exists w (vector_store_path s) then listdir w (vector_store_path s)
               else Inr []) of
           Inl e \<Rightarrow> (Inl e, w, s)
         | Inr store_names \<Rightarrow>
             if store_names \<noteq> []
             then (Inr True,
                   w\<lparr>events := events w @ [EvOpen (vector_store_path s)]\<rparr>,
                   s\<lparr>vector_store := Some (chroma_open w (vector_store_path s))\<rparr>)
             else create_vector_store E (w, s)))"

definition get_retriever ::
  "env \<Rightarrow> world \<times> rag_system \<Rightarrow> (error + document list) \<times> world \<times> rag_system" where
  "get_retriever E ws =
     (case ws of (w, s) \<Rightarrow>
        (case vector_store s of
           Some coll \<Rightarrow> (Inr coll, w, s)
         | None \<Rightarrow>
             (case initialize_vector_store E (w, s) of
                (Inl e, w', s') \<Rightarrow> (Inl e, w', s')
              | (Inr ok, w', s') \<Rightarrow>
                  (case vector_store s' of
                     Some coll \<Rightarrow> (Inr coll, w', s')
                   | None \<Rightarrow>
                       (Inl (Exception ''NoneType object has no attribute as_retriever''),
                        w', s')))))"

text \<open>The prompt template of \<open>query\<close>, around \<open>{context}\<close> and \<open>{question}\<close>.\<close>

definition nl :: string where
  "nl = [CHR 0x0A]"

definition indent :: string where
  "indent = replicate 8 (CHR 0x20)"

definition template_head :: string where
  "template_head = nl @ indent
     @ ''You are a helpful AI assistant that provides accurate information based on the given context.''
     @ nl @ indent @ nl @ indent @ ''Context:'' @ nl @ indent"

definition template_mid :: string where
  "template_mid = nl @ indent @ nl @ indent @ ''Question:'' @ nl @ indent"

definition template_tail :: string where
  "template_tail = nl @ indent @ nl @ indent
     @ ''Please provide a detailed answer based only on the provided context. If the context doesn''
     @ [CHR 0x27] @ ''t contain '' @ nl @ indent
     @ ''relevant information to answer the question, state that you don'' @ [CHR 0x27]
     @ ''t have enough information.'' @ nl @ indent"

definition format_prompt :: "string \<Rightarrow> string \<Rightarrow> string" where
  "format_prompt context question = template_head @ context @ template_mid @ question @ template_tail"

text \<open>
  The chain \<open>RetrievalQA.from_chain_type(chain_type="stuff", return_source_documents=True)\<close>
  called on a query: the retriever gives the \<open>k = 5\<close> nearest documents, their texts
  joined by a blank line fill the context of the prompt, the language model answers the
  prompt, and the result carries the answer and the retrieved documents in their order.
\<close>

fun join_texts :: "string list \<Rightarrow> string" where
  "join_texts [] = []"
| "join_texts [t] = t"
| "join_texts (t # ts) = t @ nl @ nl @ join_texts ts"

definition qa_chain ::
  "env \<Rightarrow> world \<Rightarrow> document list \<Rightarrow> string \<Rightarrow> (error + string \<times> document list) \<times> world" where
  "qa_chain E w coll query_text =
     (case similarity_search E coll query_text 5 of
        Inl e \<Rightarrow> (Inl (Exception e), w)
      | Inr docs \<Rightarrow>
          (let prompt = format_prompt (join_texts (map page_content docs)) query_text;
               w1 = w\<lparr>events := events w @ [EvLLM prompt]\<rparr>
           in case llm E prompt of
                Inl e \<Rightarrow> (Inl (Exception e), w1)
              | Inr result \<Rightarrow> (Inr (result, docs), w1)))"

record source_info =
  content :: string
  source_metadata :: doc_meta

record query_result =
  answer :: string
  sources :: "source_info list"

definition source_of :: "document \<Rightarrow> source_info" where
  "source_of doc =
     \<lparr>content = take 150 (page_content doc) @ ''...'', source_metadata = metadata doc\<rparr>"

definition query ::
  "env \<Rightarrow> world \<times> rag_system \<Rightarrow> string \<Rightarrow> (error + query_result) \<times> world \<times> rag_system" where
  "query E ws query_text =
     (case get_retriever E ws of
        (Inl e, w1, s1) \<Rightarrow> (Inl e, w1, s1)
      | (Inr retriever, w1, s1) \<Rightarrow>
          (case qa_chain E w1 retriever query_text of
             (Inl e, w2) \<Rightarrow> (Inl e, w2, s1)
           | (Inr (result, source_documents), w2) \<Rightarrow>
               (Inr \<lparr>answer = result, sources = map source_of source_documents\<rparr>, w2, s1)))"

section \<open>agents.py and api.py\<close>

definition answer_question ::
  "env \<Rightarrow> world \<times> rag_system \<Rightarrow> string \<Rightarrow> (error + query_result) \<times> world \<times> rag_system" where
  "answer_question E ws question = query E ws question"

text \<open>
  The routes answer with a status code: 200 and the payload, 400 or 500 and a message.
  The API builds its \<open>RAGSystem\<close> on \<open>PDF_DIR\<close>, so \<open>PDF_DIR\<close> is its \<open>pdf_dir\<close>.
\<close>

datatype 'a response = Ok200 'a | BadRequest400 string | Error500 string

definition process_docs ::
  "env \<Rightarrow> world \<times> rag_system \<Rightarrow> report response \<times> world \<times> rag_system" where
  "process_docs E ws =
     (case ws of (w, s) \<Rightarrow>
        (case process_documents E w (pdf_dir s) of
           (Inl e, w1) \<Rightarrow> (Error500 (str_of_error e), w1, s)
         | (Inr result, w1) \<Rightarrow>
             (case initialize_vector_store E (w1, s) of
                (Inl e, w2, s2) \<Rightarrow> (Error500 (str_of_error e), w2, s2)
              | (Inr ok, w2, s2) \<Rightarrow> (Ok200 result, w2, s2))))"

definition ask_question ::
  "env \<Rightarrow> world \<times> rag_system \<Rightarrow> string \<Rightarrow> query_result response \<times> world \<times> rag_system" where
  "ask_question E ws query_text =
     (if query_text = [] then (BadRequest400 ''Query is required'', ws)
      else case answer_question E ws query_text of
             (Inl e, ws') \<Rightarrow> (Error500 (str_of_error e), ws')
           | (Inr r, ws') \<Rightarrow> (Ok200 r, ws'))"

definition get_documents :: "env \<Rightarrow> world \<times> rag_system \<Rightarrow> doc_info list response" where
  "get_documents E ws =
     (case ws of (w, s) \<Rightarrow>
        (case list_documents E w (pdf_dir s) of
           Inl e \<Rightarrow> Error500 (str_of_error e)
         | Inr documents \<Rightarrow> Ok200 documents))"

section \<open>Classifying the log\<close>

fun is_llm :: "event \<Rightarrow> bool" where
  "is_llm (EvLLM prompt) = True"
| "is_llm ev = False"

fun is_insert :: "event \<Rightarrow> bool" where
  "is_insert (EvInsert p n) = True"
| "is_insert ev = False"

fun is_persist :: "event \<Rightarrow> bool" where
  "is_persist (EvPersist p) = True"
| "is_persist ev = False"

fun is_success :: "file_status \<Rightarrow> bool" where
  "is_success (FileSuccess f c p) = True"
| "is_success (FileFailed f e) = False"

text \<open>What a run appended to the log.\<close>

definition new_events :: "world \<Rightarrow> world \<Rightarrow> event list" where
  "new_events w w' = drop (length (events w)) (events w')"

section \<open>A test double\<close>

text \<open>
  A concrete environment and world to run the functions on: two directories of PDFs, one
  of them with a file the loader rejects and nobody may open; a splitter that keeps each
  page as one chunk; a ranking that follows insertion order; a canned completion; the
  identity in the place of the digest.
\<close>

definition page1 :: document where
  "page1 = \<lparr>page_content = replicate 200 (CHR ''x''),
            metadata = \<lparr>source = ''a.pdf'', page = 0\<rparr>\<rparr>"

definition page2 :: document where
  "page2 = \<lparr>page_content = ''Chunks overlap.'',
            metadata = \<lparr>source = ''a.pdf'', page = 1\<rparr>\<rparr>"

definition page3 :: document where
  "page3 = \<lparr>page_content = ''An index answers nearest-neighbour queries.'',
            metadata = \<lparr>source = ''B.PDF'', page = 0\<rparr>\<rparr>"

definition example_env :: env where
  "example_env =
     \<lparr>pdf_load = (\<lambda>p. if p = ''/data/pdfs/a.pdf'' \<or> p = ''/data/mixed/a.pdf''
                        then Inr [page1, page2]
                        else if p = ''/data/pdfs/B.PDF'' then Inr [page3]
                        else Inl ''EOF marker not found''),
      split_documents = (\<lambda>docs. Inr docs),
      embed_documents = (\<lambda>texts. None),
      similarity_search = (\<lambda>coll q k. Inr (take k coll)),
      llm = (\<lambda>prompt. Inr ''The documents describe retrieval.''),
      sha256_hexdigest = (\<lambda>b. b),
      strftime = (\<lambda>t. ''2024-01-01 00:00:00''),
      normpath = (\<lambda>p. p),
      module_dir = ''/app/src'',
      google_api_key = Some ''key''\<rparr>"

definition example_world :: world where
  "example_world =
     \<lparr>fs = [''/data/pdfs'' \<mapsto> Directory [''a.pdf'', ''notes.txt'', ''B.PDF''],
            ''/data/mixed'' \<mapsto> Directory [''a.pdf'', ''bad.pdf''],
            ''/data/empty'' \<mapsto> Directory [''notes.txt'']],
      os_stat = (\<lambda>p. if p = ''/data/mixed/a.pdf'' then Inr (1536, 0)
                       else if p = ''/data/mixed/bad.pdf'' then Inr (2048, 0)
                       else Inl ''No such file or directory''),
      open_rb = (\<lambda>p. if p = ''/data/mixed/a.pdf'' then Inr ''%PDF-1.4''
                       else if p = ''/data/big/x.pdf''
                         then Inr (replicate (1024 * 1024) (CHR ''a'') @ ''x'')
                       else if p = ''/data/big/y.pdf''
                         then Inr (replicate (1024 * 1024) (CHR ''a'') @ ''y'')
                       else Inl ''Permission denied''),
      chroma = Map.empty,
      events = []\<rparr>"

text \<open>
  The world and the system right after \<open>RAGSystem(pdf_dir='/data/pdfs')\<close>, and the
  systems built on the directory with the broken PDF, on the directory without a PDF
  and on a directory that does not exist: the store directory is there and empty, no
  store is loaded.
\<close>

definition fresh_world :: world where
  "fresh_world = example_world\<lparr>fs := (fs example_world)(''/data/vector_store'' \<mapsto> Directory [])\<rparr>"

definition fresh_system :: rag_system where
  "fresh_system =
     \<lparr>pdf_dir = ''/data/pdfs'', vector_store_path = ''/data/vector_store'', vector_store = None\<rparr>"

definition mixed_system :: rag_system where
  "mixed_system =
     \<lparr>pdf_dir = ''/data/mixed'', vector_store_path = ''/data/vector_store'', vector_store = None\<rparr>"

definition empty_system :: rag_system where
  "empty_system =
     \<lparr>pdf_dir = ''/data/empty'', vector_store_path = ''/data/vector_store'', vector_store = None\<rparr>"

definition missing_system :: rag_system where
  "missing_system =
     \<lparr>pdf_dir = ''/data/missing'', vector_store_path = ''/data/vector_store'', vector_store = None\<rparr>"

text \<open>Two ingestion runs in a row on the fresh system.\<close>

definition first_run :: "(error + bool) \<times> world \<times> rag_system" where
  "first_run = initialize_vector_store example_env (fresh_world, fresh_system)"

definition second_run :: "(error + bool) \<times> world \<times> rag_system" where
  "second_run = initialize_vector_store example_env (snd first_run)"

text \<open>A question put to the fresh system.\<close>

definition fresh_query :: "(error + query_result) \<times> world \<times> rag_system" where
  "fresh_query = query example_env (fresh_world, fresh_system) ''What is in the documents?''"

text \<open>An ingestion request on the directory with the broken PDF.\<close>

definition mixed_run :: "(error + bool) \<times> world \<times> rag_system" where
  "mixed_run = initialize_vector_store example_env (fresh_world, mixed_system)"

definition mixed_report :: "(error + report) \<times> world" where
  "mixed_report = process_documents example_env fresh_world ''/data/mixed''"

definition mixed_request :: "report response \<times> world \<times> rag_system" where
  "mixed_request = process_docs example_env (fresh_world, mixed_system)"

text \<open>A report on the directory where every PDF loads.\<close>

definition pdfs_report :: "(error + report) \<times> world" where
  "pdfs_report = process_documents example_env fresh_world ''/data/pdfs''"

text \<open>The sources the fresh system names for its answer.\<close>

definition example_sources :: "source_info list" where
  "example_sources =
     [\<lparr>content = replicate 150 (CHR ''x'') @ ''...'',
       source_metadata = \<lparr>source = ''a.pdf'', page = 0\<rparr>\<rparr>,
      \<lparr>content = ''Chunks overlap....'',
       source_metadata = \<lparr>source = ''a.pdf'', page = 1\<rparr>\<rparr>,
      \<lparr>content = ''An index answers nearest-neighbour queries....'',
       source_metadata = \<lparr>source = ''B.PDF'', page = 0\<rparr>\<rparr>]"

section \<open>Evaluation on concrete inputs\<close>

lemmas path_eval = join_def startswith_def endswith_def basename_def dirname_def
  is_pdf_name_def lower_def lower_char_def glob_match_pdf_def char_of_def bit_0

lemmas run_eval = initialize_vector_store_def create_vector_store_def exists_def listdir_def
  makedirs_def from_documents_def persist_def chroma_open_def chroma_files_def
  fresh_world_def example_world_def example_env_def fresh_system_def mixed_system_def
  empty_system_def missing_system_def Let_def

section \<open>The content hash\<close>

text \<open>
  C9. The hash of a document is the digest of the first 1024 * 1024 bytes of the file and
  of nothing else: two files that agree on their first megabyte have the same hash,
  whatever follows, and the hash of a file no longer than a megabyte is the digest of
  its whole content.
\<close>

theorem generate_file_hash_first_megabyte:
  "(open_rb w1 p1 = Inr a \<and> open_rb w2 p2 = Inr b \<and> take (1024 * 1024) a = take (1024 * 1024) b
      \<longrightarrow> generate_file_hash E w1 p1 = generate_file_hash E w2 p2)
   \<and> (open_rb w p = Inr c \<and> length c \<le> 1024 * 1024
      \<longrightarrow> generate_file_hash E w p = Inr (sha256_hexdigest E c))
   \<and> (open_rb w p = Inr c
      \<longrightarrow> generate_file_hash E w p = Inr (sha256_hexdigest E (take (1024 * 1024) c)))"
  by (simp add: generate_file_hash_def generate_file_hash_n_def)

lemma example_files:
  "open_rb example_world ''/data/big/x.pdf'' = Inr (replicate (1024 * 1024) (CHR ''a'') @ ''x'')"
  "open_rb example_world ''/data/big/y.pdf'' = Inr (replicate (1024 * 1024) (CHR ''a'') @ ''y'')"
  "open_rb example_world ''/data/mixed/a.pdf'' = Inr ''%PDF-1.4''"
  by (simp_all add: example_world_def)

theorem generate_file_hash_first_megabyte_witness:
  "open_rb example_world ''/data/big/x.pdf'' \<noteq> open_rb example_world ''/data/big/y.pdf''
   \<and> generate_file_hash example_env example_world ''/data/big/x.pdf''
       = generate_file_hash example_env example_world ''/data/big/y.pdf''
   \<and> generate_file_hash example_env example_world ''/data/mixed/a.pdf'' = Inr ''%PDF-1.4''"
  using generate_file_hash_first_megabyte
      [where ?w1.0 = example_world and ?p1.0 = "''/data/big/x.pdf''"
         and a = "replicate (1024 * 1024) (CHR ''a'') @ ''x''"
         and ?w2.0 = example_world and ?p2.0 = "''/data/big/y.pdf''"
         and b = "replicate (1024 * 1024) (CHR ''a'') @ ''y''"
         and w = example_world and p = "''/data/mixed/a.pdf''" and c = "''%PDF-1.4''"
         and E = example_env]
  by (simp add: example_files example_env_def)

section \<open>The listing of the source directory\<close>

text \<open>
  C8, as the code has it. For a source directory that exists, \<open>list_documents\<close>
  returns one record per entry whose lower-cased name ends in \<open>.pdf\<close>, in the order of
  the listing. The record holds the file name, the size in kilobytes rounded to two
  decimals, the formatted modification time and the hash of the first megabyte when
  \<open>os.stat\<close> and the hash succeed, and the file name with the message of the exception
  when one of them raises. The listing is computed from the file system alone: the
  persisted collections and the log do not enter it.
\<close>

theorem list_documents_records:
  assumes "fs w d = Some (Directory names)"
  shows "list_documents E w d =
           Inr (map (\<lambda>f. case os_stat w (join d f) of
                            Inl e \<Rightarrow> InfoError f e
                          | Inr (st_size, st_mtime) \<Rightarrow>
                              (case open_rb w (join d f) of
                                 Inl e \<Rightarrow> InfoError f e
                               | Inr data \<Rightarrow>
                                   Info f (size_kb_hundredths st_size) (strftime E st_mtime)
                                     (sha256_hexdigest E (take (1024 * 1024) data))))
                    (filter is_pdf_name names))
         \<and> list_documents E (w\<lparr>chroma := c, events := ev\<rparr>) d = list_documents E w d"
  using assms
  by (auto simp: list_documents_def exists_def listdir_def document_info_def
      generate_file_hash_def generate_file_hash_n_def Let_def split: sum.splits prod.splits)

lemma example_mixed_dir:
  "fs example_world ''/data/mixed'' = Some (Directory [''a.pdf'', ''bad.pdf''])"
  by (simp add: example_world_def)

theorem list_documents_records_witness:
  "list_documents example_env example_world ''/data/mixed''
     = Inr [Info ''a.pdf'' 150 ''2024-01-01 00:00:00'' ''%PDF-1.4'',
            InfoError ''bad.pdf'' ''Permission denied'']
   \<and> list_documents example_env (example_world\<lparr>chroma := [''/data/vector_store'' \<mapsto> [page1]], events := [EvPersist ''/data/vector_store'']\<rparr>) ''/data/mixed''
       = list_documents example_env example_world ''/data/mixed''"
  using list_documents_records [OF example_mixed_dir, where E = example_env
      and c = "[''/data/vector_store'' \<mapsto> [page1]]" and ev = "[EvPersist ''/data/vector_store'']"]
  by (simp add: path_eval example_world_def example_env_def size_kb_hundredths_def)

text \<open>
  C8 as stated fails: a PDF that nobody may open gets a record without size, time and
  hash, and the size of a readable one is reported in kilobytes (1536 bytes as 1.50),
  not in bytes.
\<close>

theorem list_documents_fields_counterexample:
  "list_documents example_env fresh_world ''/data/mixed''
     = Inr [Info ''a.pdf'' 150 ''2024-01-01 00:00:00'' ''%PDF-1.4'',
            InfoError ''bad.pdf'' ''Permission denied'']"
  by (simp add: list_documents_def exists_def listdir_def document_info_def
      generate_file_hash_def generate_file_hash_n_def path_eval fresh_world_def
      example_world_def example_env_def size_kb_hundredths_def)

section \<open>The processing report\<close>

text \<open>
  The loop of \<open>process_documents\<close> in closed form: every path is handed to the loader,
  every path gets one entry, and the counters count the entries of each kind.
\<close>

lemma process_loop_eq:
  "process_loop E paths (r, w) =
     (r\<lparr>processed := processed r + length (filter is_success (map (process_pdf E) paths)),
        failed := failed r + length (filter (\<lambda>st. \<not> is_success st) (map (process_pdf E) paths)),
        files := files r @ map (process_pdf E) paths\<rparr>,
      w\<lparr>events := events w @ map EvLoad paths\<rparr>)"
proof (induction paths arbitrary: r w)
  case Nil
  show ?case by simp
next
  case (Cons pdf_path rest)
  show ?case
  proof (cases "process_pdf E pdf_path")
    case (FileSuccess f c p)
    then show ?thesis by (simp add: Cons.IH)
  next
    case (FileFailed f e)
    then show ?thesis by (simp add: Cons.IH)
  qed
qed

lemma process_documents_cases:
  "process_documents E w d =
     (case resolve_pdf_directory E w d of
        Inl e \<Rightarrow> (Inl e, w)
      | Inr dir \<Rightarrow>
          (Inr \<lparr>processed = length (filter is_success (map (process_pdf E) (glob_pdf w dir))),
                failed = length (filter (\<lambda>st. \<not> is_success st) (map (process_pdf E) (glob_pdf w dir))),
                files = map (process_pdf E) (glob_pdf w dir)\<rparr>,
           w\<lparr>events := events w @ map EvLoad (glob_pdf w dir)\<rparr>))"
  by (simp add: process_documents_def process_loop_eq Let_def split: sum.splits)

lemma process_documents_counts:
  assumes "process_documents E w d = (Inr r, w')"
  shows "processed r + failed r = length (files r)
         \<and> processed r = length (filter is_success (files r))
         \<and> failed r = length (filter (\<lambda>st. \<not> is_success st) (files r))"
  using assms sum_length_filter_compl [of is_success "files r"]
  by (auto simp: process_documents_cases split: sum.splits)

lemma exists_frame: "exists (w\<lparr>chroma := c\<rparr>) p = exists w p"
  by (simp add: exists_def)

lemma resolve_frame:
  "resolve_pdf_directory E (w\<lparr>chroma := c\<rparr>) d = resolve_pdf_directory E w d"
  by (simp add: resolve_pdf_directory_def exists_frame Let_def cong: if_cong)

lemma glob_frame: "glob_pdf (w\<lparr>chroma := c\<rparr>) d = glob_pdf w d"
  by (simp add: glob_pdf_def)

text \<open>
  C10. \<open>process_documents\<close> leaves the vector index alone: the persisted collections
  and the file system are the same after the call, the call adds no insertion and no
  flush to the log, only the loads, and its result is the same whatever the index
  holds. The report is made of one \<open>process_pdf\<close> entry per PDF, which only loads and
  splits, so its counts are the counts of the files that could be chunked.
\<close>

theorem process_documents_frame:
  assumes "process_documents E w d = (res, w')"
  shows "chroma w' = chroma w \<and> fs w' = fs w
         \<and> events w' = events w @ new_events w w'
         \<and> filter is_insert (new_events w w') = []
         \<and> filter is_persist (new_events w w') = []
         \<and> fst (process_documents E (w\<lparr>chroma := c\<rparr>) d) = res
         \<and> (\<exists>paths. new_events w w' = map EvLoad paths
               \<and> (\<forall>r. res = Inr r \<longrightarrow>
                     files r = map (process_pdf E) paths
                     \<and> processed r = length (filter is_success (files r))
                     \<and> failed r = length (filter (\<lambda>st. \<not> is_success st) (files r))))"
proof (cases "resolve_pdf_directory E w d")
  case (Inl e)
  with assms show ?thesis
    by (auto simp: process_documents_cases new_events_def resolve_frame)
next
  case (Inr dir)
  with assms have "new_events w w' = map EvLoad (glob_pdf w dir)"
    by (auto simp: process_documents_cases new_events_def)
  with assms Inr show ?thesis
    by (auto simp: process_documents_cases resolve_frame glob_frame
        intro!: exI [of _ "glob_pdf w dir"])
qed

lemma pdfs_report_eval:
  "fst pdfs_report = Inr \<lparr>processed = 1, failed = 0, files = [FileSuccess ''a.pdf'' 2 2]\<rparr>"
  by code_simp

theorem process_documents_frame_witness:
  "fst pdfs_report = Inr \<lparr>processed = 1, failed = 0, files = [FileSuccess ''a.pdf'' 2 2]\<rparr>
   \<and> chroma (snd pdfs_report) = chroma fresh_world
   \<and> fs (snd pdfs_report) = fs fresh_world
   \<and> filter is_insert (new_events fresh_world (snd pdfs_report)) = []
   \<and> filter is_persist (new_events fresh_world (snd pdfs_report)) = []
   \<and> fst (process_documents example_env
             (fresh_world\<lparr>chroma := [''/data/vector_store'' \<mapsto> [page1]]\<rparr>) ''/data/pdfs'')
       = fst pdfs_report"
proof -
  have run: "process_documents example_env fresh_world ''/data/pdfs''
               = (fst pdfs_report, snd pdfs_report)"
    by (simp add: pdfs_report_def)
  show ?thesis
    using process_documents_frame [OF run, of "[''/data/vector_store'' \<mapsto> [page1]]"]
    by (simp add: pdfs_report_eval)
qed

section \<open>Building the vector store\<close>

text \<open>
  The chunks the loop of \<open>initialize_vector_store\<close> gathers do not depend on the
  world it runs in, and the loop changes nothing but the log.
\<close>

lemma load_chunks_fst:
  "fst (load_chunks E d names (acc, w)) = fst (load_chunks E d names (acc, w0))"
proof (induction names arbitrary: acc w w0)
  case Nil
  show ?case by simp
next
  case (Cons f rest)
  show ?case
    by (simp add: Let_def Cons.IH [of _ "w\<lparr>events := events w @ [EvLoad (join d f)]\<rparr>"
          "w0\<lparr>events := events w0 @ [EvLoad (join d f)]\<rparr>"] split: sum.splits)
qed

lemma load_chunks_world:
  "\<exists>n. n \<le> length names
     \<and> snd (load_chunks E d names (acc, w))
         = w\<lparr>events := events w @ map (\<lambda>f. EvLoad (join d f)) (take n names)\<rparr>
     \<and> (\<forall>docs. fst (load_chunks E d names (acc, w)) = Inr docs \<longrightarrow> n = length names)"
proof (induction names arbitrary: acc w)
  case Nil
  show ?case by simp
next
  case (Cons f rest)
  let ?w1 = "w\<lparr>events := events w @ [EvLoad (join d f)]\<rparr>"
  show ?case
  proof (cases "pdf_load E (join d f)")
    case (Inl e)
    then show ?thesis by (intro exI [of _ 1]) (simp add: Let_def)
  next
    case (Inr pages)
    show ?thesis
    proof (cases "split_documents E pages")
      case (Inl e)
      with Inr show ?thesis by (intro exI [of _ 1]) (simp add: Let_def)
    next
      case chunks: (Inr chunks)
      from Cons.IH [of "acc @ chunks" ?w1] obtain n where n: "n \<le> length rest"
        "snd (load_chunks E d rest (acc @ chunks, ?w1))
           = ?w1\<lparr>events := events ?w1 @ map (\<lambda>f. EvLoad (join d f)) (take n rest)\<rparr>"
        "\<forall>docs. fst (load_chunks E d rest (acc @ chunks, ?w1)) = Inr docs \<longrightarrow> n = length rest"
        by blast
      show ?thesis
        using Inr chunks n by (intro exI [of _ "Suc n"]) (simp add: Let_def)
    qed
  qed
qed

lemma load_chunks_events:
  assumes "load_chunks E d names (acc, w) = (res, w')"
  shows "\<exists>paths. w' = w\<lparr>events := events w @ map EvLoad paths\<rparr>
           \<and> (\<forall>docs. res = Inr docs \<longrightarrow> paths = map (join d) names)"
proof -
  from load_chunks_world [of names E d acc w] obtain n where n: "n \<le> length names"
    "snd (load_chunks E d names (acc, w))
       = w\<lparr>events := events w @ map (\<lambda>f. EvLoad (join d f)) (take n names)\<rparr>"
    "\<forall>docs. fst (load_chunks E d names (acc, w)) = Inr docs \<longrightarrow> n = length names"
    by blast
  show ?thesis
    using assms n by (intro exI [of _ "map (join d) (take n names)"]) (auto simp: comp_def)
qed


lemma makedirs_frame:
  assumes "makedirs w p = Inr w1"
  shows "chroma w1 = chroma w \<and> events w1 = events w \<and> fs w1 p \<noteq> None
         \<and> (\<forall>q. q \<noteq> p \<longrightarrow> fs w1 q = fs w q)
         \<and> (fs w p = None \<or> fs w p = Some (Directory []) \<longrightarrow> fs w1 p = Some (Directory []))"
  using assms by (auto simp: makedirs_def split: option.splits node.splits)

lemma create_vector_store_cases:
  assumes "create_vector_store E (w, s) = (res, w', s')"
  shows "(\<exists>e paths. res = Inl e \<and> s' = s \<and> chroma w' = chroma w
            \<and> events w' = events w @ map EvLoad paths)
       \<or> (\<exists>names docs. res = Inr True
            \<and> fst (load_chunks E (pdf_dir s) names ([], w)) = Inr docs
            \<and> names \<noteq> []
            \<and> events w' = events w @ map EvLoad (map (join (pdf_dir s)) names)
                 @ [EvInsert (vector_store_path s) (length docs), EvPersist (vector_store_path s)]
            \<and> chroma w' = (chroma w)(vector_store_path s \<mapsto> chroma_open w (vector_store_path s) @ docs)
            \<and> (\<exists>listing. listing \<noteq> [] \<and> fs w' (vector_store_path s) = Some (Directory listing))
            \<and> s' = s\<lparr>vector_store := Some (chroma_open w (vector_store_path s) @ docs)\<rparr>)"
proof (cases "makedirs w (vector_store_path s)")
  case (Inl e)
  with assms show ?thesis
    by (intro disjI1 exI [of _ e] exI [of _ "[]"]) (auto simp: create_vector_store_def)
next
  case mk: (Inr w1)
  note fr = makedirs_frame [OF mk]
  show ?thesis
  proof (cases "exists w1 (pdf_dir s)")
    case False
    with assms mk fr show ?thesis
      by (intro disjI1 exI [of _ "FileNotFoundError (''PDF directory not found: '' @ pdf_dir s)"]
          exI [of _ "[]"]) (auto simp: create_vector_store_def)
  next
    case ex: True
    show ?thesis
    proof (cases "listdir w1 (pdf_dir s)")
      case (Inl e)
      with assms mk fr ex show ?thesis
        by (intro disjI1 exI [of _ e] exI [of _ "[]"]) (auto simp: create_vector_store_def)
    next
      case ls: (Inr names)
      let ?pdfs = "filter is_pdf_name names"
      show ?thesis
      proof (cases "?pdfs = []")
        case True
        with assms mk fr ex ls show ?thesis
          by (intro disjI1 exI [of _ "ValueError (''No PDF files found in '' @ pdf_dir s)"]
              exI [of _ "[]"]) (auto simp: create_vector_store_def)
      next
        case ne: False
        obtain lres w2 where lc: "load_chunks E (pdf_dir s) ?pdfs ([], w1) = (lres, w2)"
          by (cases "load_chunks E (pdf_dir s) ?pdfs ([], w1)") blast
        from load_chunks_events [OF lc] obtain paths where
          w2: "w2 = w1\<lparr>events := events w1 @ map EvLoad paths\<rparr>"
          and paths: "\<forall>docs. lres = Inr docs \<longrightarrow> paths = map (join (pdf_dir s)) ?pdfs"
          by blast
        show ?thesis
        proof (cases lres)
          case (Inl e)
          with assms mk fr ex ls ne lc w2 show ?thesis
            by (intro disjI1 exI [of _ e] exI [of _ paths]) (auto simp: create_vector_store_def)
        next
          case docs: (Inr docs)
          have fst_lc: "fst (load_chunks E (pdf_dir s) ?pdfs ([], w)) = Inr docs"
            using lc docs load_chunks_fst [of E "pdf_dir s" ?pdfs "[]" w w1] by simp
          show ?thesis
          proof (cases "embed_documents E (map page_content docs)")
            case (Some e)
            with assms mk fr ex ls ne lc w2 docs show ?thesis
              by (intro disjI1 exI [of _ "Exception e"] exI [of _ paths])
                (auto simp: create_vector_store_def from_documents_def)
          next
            case None
            have co: "chroma_open w2 (vector_store_path s) = chroma_open w (vector_store_path s)"
              using w2 fr by (simp add: chroma_open_def)
            have res: "res = Inr True"
              and w': "w' = persist (w2\<lparr>events := events w2 @ [EvInsert (vector_store_path s) (length docs)]\<rparr>)
                        (vector_store_path s) (chroma_open w (vector_store_path s) @ docs)"
              and s': "s' = s\<lparr>vector_store := Some (chroma_open w (vector_store_path s) @ docs)\<rparr>"
              using assms mk ex ls ne lc docs None co
              by (auto simp: create_vector_store_def from_documents_def)
            have ev: "events w' = events w @ map EvLoad (map (join (pdf_dir s)) ?pdfs)
                 @ [EvInsert (vector_store_path s) (length docs), EvPersist (vector_store_path s)]"
              using w' w2 fr paths docs by (simp add: persist_def)
            have ch: "chroma w' = (chroma w)(vector_store_path s \<mapsto> chroma_open w (vector_store_path s) @ docs)"
              using w' w2 fr by (simp add: persist_def)
            have li: "\<exists>listing. listing \<noteq> [] \<and> fs w' (vector_store_path s) = Some (Directory listing)"
              using w' by (auto simp: persist_def chroma_files_def split: option.splits node.splits)
            show ?thesis
              using res fst_lc ne ev ch li s' by (intro disjI2 exI [of _ ?pdfs] exI [of _ docs]) simp
          qed
        qed
      qed
    qed
  qed
qed


lemma initialize_vector_store_cases:
  assumes "initialize_vector_store E (w, s) = (res, w', s')"
  shows "(\<exists>e. res = Inl e \<and> s' = s \<and> w' = w)
       \<or> (res = Inr True
            \<and> (\<exists>listing. listing \<noteq> [] \<and> fs w (vector_store_path s) = Some (Directory listing))
            \<and> w' = w\<lparr>events := events w @ [EvOpen (vector_store_path s)]\<rparr>
            \<and> s' = s\<lparr>vector_store := Some (chroma_open w (vector_store_path s))\<rparr>)
       \<or> ((fs w (vector_store_path s) = None \<or> fs w (vector_store_path s) = Some (Directory []))
            \<and> create_vector_store E (w, s) = (res, w', s'))"
  using assms
  by (auto simp: initialize_vector_store_def exists_def listdir_def
      split: option.splits node.splits if_splits)

lemma new_events_append: "events w' = events w @ xs \<Longrightarrow> new_events w w' = xs"
  by (simp add: new_events_def)

lemma filter_load [simp]:
  "filter is_insert (map EvLoad paths) = []"
  "filter is_persist (map EvLoad paths) = []"
  "filter is_llm (map EvLoad paths) = []"
  by (induction paths) simp_all

text \<open>
  C4. In every run of \<open>initialize_vector_store\<close> the log gains as many flushes as
  insertions, and at most one insertion. A run that inserts chunks has loaded every PDF
  first, inserts the chunks of all of them in one step and then calls \<open>persist\<close>
  once, as its last action: the log of the run is the loads, the insertion, the flush,
  and the persisted collection is the one the system holds.
\<close>

theorem persist_once_per_run:
  assumes "initialize_vector_store E (w, s) = (res, w', s')"
  shows "events w' = events w @ new_events w w'
       \<and> length (filter is_persist (new_events w w')) = length (filter is_insert (new_events w w'))
       \<and> length (filter is_insert (new_events w w')) \<le> 1
       \<and> (filter is_insert (new_events w w') \<noteq> [] \<longrightarrow>
            (\<exists>names docs.
               fst (load_chunks E (pdf_dir s) names ([], w)) = Inr docs
               \<and> new_events w w' = map EvLoad (map (join (pdf_dir s)) names)
                    @ [EvInsert (vector_store_path s) (length docs), EvPersist (vector_store_path s)]
               \<and> chroma w' (vector_store_path s) = Some (chroma_open w (vector_store_path s) @ docs)
               \<and> vector_store s' = Some (chroma_open w (vector_store_path s) @ docs)))"
proof -
  consider
    (err) e where "res = Inl e" "w' = w"
  | (load) "w' = w\<lparr>events := events w @ [EvOpen (vector_store_path s)]\<rparr>"
  | (create) "create_vector_store E (w, s) = (res, w', s')"
    using initialize_vector_store_cases [OF assms] by blast
  then show ?thesis
  proof cases
    case err
    then show ?thesis by (simp add: new_events_def)
  next
    case load
    then show ?thesis by (simp add: new_events_def)
  next
    case create
    from create_vector_store_cases [OF create] show ?thesis
    proof (elim disjE exE conjE)
      fix e paths
      assume "events w' = events w @ map EvLoad paths"
      then show ?thesis by (simp add: new_events_append)
    next
      fix names docs
      assume lc: "fst (load_chunks E (pdf_dir s) names ([], w)) = Inr docs"
        and ev: "events w' = events w @ map EvLoad (map (join (pdf_dir s)) names)
                 @ [EvInsert (vector_store_path s) (length docs), EvPersist (vector_store_path s)]"
        and ch: "chroma w' = (chroma w)(vector_store_path s \<mapsto> chroma_open w (vector_store_path s) @ docs)"
        and s': "s' = s\<lparr>vector_store := Some (chroma_open w (vector_store_path s) @ docs)\<rparr>"
      have ne: "new_events w w' = map EvLoad (map (join (pdf_dir s)) names)
                 @ [EvInsert (vector_store_path s) (length docs), EvPersist (vector_store_path s)]"
        using ev by (rule new_events_append)
      show ?thesis
        using lc ev ch s' by (auto simp: ne)
    qed
  qed
qed

lemma first_run_eval:
  "fst first_run = Inr True"
  "events (fst (snd first_run)) =
     [EvLoad ''/data/pdfs/a.pdf'', EvLoad ''/data/pdfs/B.PDF'',
      EvInsert ''/data/vector_store'' 3, EvPersist ''/data/vector_store'']"
  "chroma (fst (snd first_run)) ''/data/vector_store'' = Some [page1, page2, page3]"
  "snd (snd first_run) = fresh_system\<lparr>vector_store := Some [page1, page2, page3]\<rparr>"
  by (simp_all add: first_run_def run_eval path_eval)


lemma first_run_unfold:
  "initialize_vector_store example_env (fresh_world, fresh_system)
     = (fst first_run, fst (snd first_run), snd (snd first_run))"
  by (simp add: first_run_def)

lemma fresh_world_events: "events fresh_world = []"
  by (simp add: fresh_world_def example_world_def)

theorem persist_once_per_run_witness:
  "new_events fresh_world (fst (snd first_run))
     = [EvLoad ''/data/pdfs/a.pdf'', EvLoad ''/data/pdfs/B.PDF'',
        EvInsert ''/data/vector_store'' 3, EvPersist ''/data/vector_store'']
   \<and> length (filter is_persist (new_events fresh_world (fst (snd first_run)))) = 1
   \<and> (\<exists>names docs.
        fst (load_chunks example_env ''/data/pdfs'' names ([], fresh_world)) = Inr docs
        \<and> new_events fresh_world (fst (snd first_run))
            = map EvLoad (map (join ''/data/pdfs'') names)
                @ [EvInsert ''/data/vector_store'' (length docs), EvPersist ''/data/vector_store'']
        \<and> chroma (fst (snd first_run)) ''/data/vector_store''
            = Some (chroma_open fresh_world ''/data/vector_store'' @ docs))"
proof -
  have ne: "new_events fresh_world (fst (snd first_run))
     = [EvLoad ''/data/pdfs/a.pdf'', EvLoad ''/data/pdfs/B.PDF'',
        EvInsert ''/data/vector_store'' 3, EvPersist ''/data/vector_store'']"
    by (simp add: new_events_def fresh_world_events first_run_eval)
  have ins: "filter is_insert (new_events fresh_world (fst (snd first_run))) \<noteq> []"
    by (simp add: ne)
  from persist_once_per_run [OF first_run_unfold] ins obtain names docs where
    "fst (load_chunks example_env (pdf_dir fresh_system) names ([], fresh_world)) = Inr docs"
    "new_events fresh_world (fst (snd first_run))
       = map EvLoad (map (join (pdf_dir fresh_system)) names)
           @ [EvInsert (vector_store_path fresh_system) (length docs),
              EvPersist (vector_store_path fresh_system)]"
    "chroma (fst (snd first_run)) (vector_store_path fresh_system)
       = Some (chroma_open fresh_world (vector_store_path fresh_system) @ docs)"
    by blast
  then have "\<exists>names docs.
        fst (load_chunks example_env ''/data/pdfs'' names ([], fresh_world)) = Inr docs
        \<and> new_events fresh_world (fst (snd first_run))
            = map EvLoad (map (join ''/data/pdfs'') names)
                @ [EvInsert ''/data/vector_store'' (length docs), EvPersist ''/data/vector_store'']
        \<and> chroma (fst (snd first_run)) ''/data/vector_store''
            = Some (chroma_open fresh_world ''/data/vector_store'' @ docs)"
    unfolding fresh_system_def by (intro exI [of _ names] exI [of _ docs]) simp
  then show ?thesis
    by (simp add: ne)
qed

text \<open>
  C5 as stated fails: a second ingestion of the same corpus, with the store of the
  first one in place, leaves the index at three entries, not six.
\<close>

theorem reingestion_doubles_counterexample:
  "fst first_run = Inr True \<and> fst second_run = Inr True
   \<and> length (chroma_open (fst (snd first_run)) ''/data/vector_store'') = 3
   \<and> length (chroma_open (fst (snd second_run)) ''/data/vector_store'') = 3"
  by code_simp

text \<open>
  C5, as the code has it. After a run of \<open>initialize_vector_store\<close> that succeeded,
  the store directory is not empty, so the next run takes the branch that loads the
  existing store: it succeeds, inserts nothing, only opens the store, and the index has
  as many entries after it as before.
\<close>

theorem second_ingestion_loads:
  assumes "initialize_vector_store E (w, s) = (Inr ok, w1, s1)"
  shows "\<exists>w2. initialize_vector_store E (w1, s1) = (Inr True, w2, s1)
           \<and> chroma w2 = chroma w1
           \<and> new_events w1 w2 = [EvOpen (vector_store_path s)]
           \<and> vector_store s1 = Some (chroma_open w2 (vector_store_path s))
           \<and> length (chroma_open w2 (vector_store_path s))
               = length (chroma_open w1 (vector_store_path s))"
proof -
  let ?p = "vector_store_path s"
  consider
    (load) "(\<exists>listing. listing \<noteq> [] \<and> fs w ?p = Some (Directory listing))"
      "w1 = w\<lparr>events := events w @ [EvOpen ?p]\<rparr>"
      "s1 = s\<lparr>vector_store := Some (chroma_open w ?p)\<rparr>"
  | (create) "create_vector_store E (w, s) = (Inr ok, w1, s1)"
    using initialize_vector_store_cases [OF assms] by blast
  then have key: "vector_store_path s1 = ?p \<and> vector_store s1 = Some (chroma_open w1 ?p)
             \<and> (\<exists>listing. listing \<noteq> [] \<and> fs w1 ?p = Some (Directory listing))"
  proof cases
    case load
    then show ?thesis by (auto simp: chroma_open_def)
  next
    case create
    from create_vector_store_cases [OF create] show ?thesis
      by (auto simp: chroma_open_def)
  qed
  then obtain listing where l: "listing \<noteq> []" "fs w1 ?p = Some (Directory listing)"
    by blast
  have "initialize_vector_store E (w1, s1)
          = (Inr True, w1\<lparr>events := events w1 @ [EvOpen ?p]\<rparr>, s1)"
    using key l by (simp add: initialize_vector_store_def exists_def listdir_def)
  then show ?thesis
    using key by (intro exI [of _ "w1\<lparr>events := events w1 @ [EvOpen ?p]\<rparr>"])
      (simp add: new_events_def chroma_open_def)
qed

theorem second_ingestion_loads_witness:
  "fst first_run = Inr True \<and> fst second_run = Inr True
   \<and> new_events (fst (snd first_run)) (fst (snd second_run)) = [EvOpen ''/data/vector_store'']
   \<and> length (chroma_open (fst (snd second_run)) ''/data/vector_store'')
       = length (chroma_open (fst (snd first_run)) ''/data/vector_store'')"
proof -
  have run: "initialize_vector_store example_env (fresh_world, fresh_system)
               = (Inr True, fst (snd first_run), snd (snd first_run))"
    using first_run_unfold by (simp add: first_run_eval)
  have second: "second_run
                  = initialize_vector_store example_env (fst (snd first_run), snd (snd first_run))"
    by (simp add: second_run_def)
  from second_ingestion_loads [OF run] obtain w2 where w2:
    "initialize_vector_store example_env (fst (snd first_run), snd (snd first_run))
       = (Inr True, w2, snd (snd first_run))"
    "new_events (fst (snd first_run)) w2 = [EvOpen (vector_store_path fresh_system)]"
    "length (chroma_open w2 (vector_store_path fresh_system))
       = length (chroma_open (fst (snd first_run)) (vector_store_path fresh_system))"
    by blast
  have sr: "second_run = (Inr True, w2, snd (snd first_run))"
    using second w2(1) by simp
  show ?thesis
    using w2(2,3) by (simp add: sr first_run_eval(1) fresh_system_def)
qed

section \<open>A batch with a broken document\<close>

text \<open>
  C2 at a failing input: the directory holds \<open>a.pdf\<close>, which loads, and \<open>bad.pdf\<close>,
  which the loader rejects. \<open>process_documents\<close> reports one processed and one failed
  file; \<open>initialize_vector_store\<close>, whose loop has no \<open>try\<close>, raises the loader's
  exception, inserts nothing and leaves the system without a store, and the request
  that runs both answers with status 500 instead of the report.
\<close>

theorem mixed_batch_aborts:
  "fst mixed_report = Inr \<lparr>processed = 1, failed = 1,
       files = [FileSuccess ''a.pdf'' 2 2, FileFailed ''bad.pdf'' ''EOF marker not found'']\<rparr>
   \<and> fst mixed_run = Inl (Exception ''EOF marker not found'')
   \<and> vector_store (snd (snd mixed_run)) = None
   \<and> chroma (fst (snd mixed_run)) ''/data/vector_store'' = None
   \<and> filter is_insert (events (fst (snd mixed_run))) = []
   \<and> fst mixed_request = Error500 ''EOF marker not found''"
  by code_simp

section \<open>Answering a question\<close>

lemma get_retriever_cases:
  assumes "get_retriever E (w, s) = (res, w1, s1)"
  shows "(\<exists>coll. vector_store s = Some coll \<and> res = Inr coll \<and> w1 = w \<and> s1 = s)
       \<or> (vector_store s = None \<and> (\<exists>e. res = Inl e)
            \<and> (\<exists>ires. initialize_vector_store E (w, s) = (ires, w1, s1)
                  \<and> (\<forall>e. ires = Inl e \<longrightarrow> res = Inl e)))
       \<or> (vector_store s = None \<and> (\<exists>coll ok. res = Inr coll \<and> vector_store s1 = Some coll
            \<and> initialize_vector_store E (w, s) = (Inr ok, w1, s1)))"
  using assms
  by (cases "initialize_vector_store E (w, s)")
    (auto simp: get_retriever_def split: option.splits sum.splits)


text \<open>
  C3. When \<open>query\<close> returns a result, its sources are the documents the retriever
  ranked for the question on the store the system holds, one source per document and in
  the same order: the preview is the first 150 characters of the text of the chunk
  followed by three dots, at most 153 characters in all, and the metadata is the one of
  the chunk. The answer is what the language model returned for the prompt built from
  these documents.
\<close>

theorem query_sources_preview:
  assumes "query E ws q = (Inr r, w', s')"
  shows "\<exists>coll docs. vector_store s' = Some coll
           \<and> similarity_search E coll q 5 = Inr docs
           \<and> llm E (format_prompt (join_texts (map page_content docs)) q) = Inr (answer r)
           \<and> map content (sources r) = map (\<lambda>d. take 150 (page_content d) @ ''...'') docs
           \<and> map source_metadata (sources r) = map metadata docs
           \<and> list_all (\<lambda>src. length (content src) \<le> 153) (sources r)"
proof -
  obtain w s where ws: "ws = (w, s)" by (cases ws)
  obtain gres w1 s1 where g: "get_retriever E (w, s) = (gres, w1, s1)"
    by (cases "get_retriever E (w, s)")
  from assms ws g obtain coll where coll: "gres = Inr coll"
    by (cases gres) (auto simp: query_def)
  from get_retriever_cases [OF g] coll have vs: "vector_store s1 = Some coll"
    by auto
  obtain docs where docs: "similarity_search E coll q 5 = Inr docs"
    using assms ws g coll by (cases "similarity_search E coll q 5") (auto simp: query_def qa_chain_def)
  have rest: "llm E (format_prompt (join_texts (map page_content docs)) q) = Inr (answer r)
      \<and> sources r = map source_of docs \<and> s' = s1"
    using assms ws g coll docs
    by (auto simp: query_def qa_chain_def Let_def split: sum.splits)
  have "list_all (\<lambda>src. length (content src) \<le> 153) (map source_of docs)"
    by (simp add: list_all_iff source_of_def)
  with vs docs rest show ?thesis
    by (intro exI [of _ coll] exI [of _ docs]) (simp add: source_of_def comp_def)
qed

lemma fresh_query_eval:
  "fst fresh_query = Inr \<lparr>answer = ''The documents describe retrieval.'', sources = example_sources\<rparr>"
  "length (filter is_llm (events (fst (snd fresh_query)))) = 1"
  "filter is_llm (events fresh_world) = []"
  by code_simp+


theorem query_sources_preview_witness:
  "fst fresh_query
     = Inr \<lparr>answer = ''The documents describe retrieval.'', sources = example_sources\<rparr>
   \<and> (\<exists>coll docs. vector_store (snd (snd fresh_query)) = Some coll
         \<and> similarity_search example_env coll ''What is in the documents?'' 5 = Inr docs
         \<and> map content example_sources = map (\<lambda>d. take 150 (page_content d) @ ''...'') docs
         \<and> map source_metadata example_sources = map metadata docs
         \<and> list_all (\<lambda>src. length (content src) \<le> 153) example_sources)"
proof -
  have run: "query example_env (fresh_world, fresh_system) ''What is in the documents?''
               = (Inr \<lparr>answer = ''The documents describe retrieval.'', sources = example_sources\<rparr>,
                  fst (snd fresh_query), snd (snd fresh_query))"
    using fresh_query_eval(1) by (simp add: fresh_query_def prod_eq_iff)
  from query_sources_preview [OF run] show ?thesis
    by (simp add: fresh_query_eval(1)) blast
qed






end
